theory Spec2Isabelle
  imports Complex_Main "HOL-Library.Word"
begin

section \<open>Data model of \<^verbatim>\<open>main.go\<close> (the framebuffer revision, lines 230--510)\<close>

text \<open>
  Go's \<^verbatim>\<open>float64\<close> is modelled by \<^typ>\<open>real\<close>: every arithmetic operation is exact.
  Rounding, infinities and NaN are outside the model. Where IEEE arithmetic would produce
  an infinity or a NaN from finite operands (a division by zero, the square root of a
  negative number) the model reports a fault instead of HOL's value (\<open>x / 0 = 0\<close>).

  Go's \<^verbatim>\<open>int64\<close> and \<^verbatim>\<open>int\<close> are modelled by \<^typ>\<open>int\<close> with the two's-complement
  wrap-around written out (\<open>wrap64\<close>), \<^verbatim>\<open>uint64\<close> by \<^typ>\<open>nat\<close> with \<open>mod 2 ^ 64\<close>,
  and \<^verbatim>\<open>uint8\<close> by \<^typ>\<open>8 word\<close>. The worker is the function
  from a pixel to the point it sends, and \<^verbatim>\<open>DrawPoint\<close>, which runs under the mutex,
  the function applied to the buffer. The goroutines are modelled by interleaving: the
  state of the running program holds the workers in flight, and a step is either one
  iteration of the run loop or the completion of one worker.
\<close>

type_synonym float64 = real
type_synonym uint8 = "8 word"

datatype fault =
    DivisionByZero    \<comment> \<open>a float division by zero (IEEE gives an infinity or NaN)\<close>
  | SqrtOfNegative    \<comment> \<open>\<^verbatim>\<open>math.Sqrt\<close> of a negative number (IEEE gives NaN)\<close>
  | Unrepresentable   \<comment> \<open>a float-to-integer conversion whose value the target type cannot
                          hold (the Go specification leaves the result to the implementation)\<close>
  | LenOutOfRange     \<comment> \<open>the run-time panic of \<^verbatim>\<open>make\<close> with a negative length\<close>
  | IndexOutOfRange   \<comment> \<open>the run-time panic of a slice index out of range\<close>

record Point =
  X :: float64
  Y :: float64
  Red :: uint8
  Green :: uint8
  Blue :: uint8

text \<open>The fields \<^verbatim>\<open>Min\<close> and \<^verbatim>\<open>Max\<close> of the source are named \<open>Min_plane\<close> and
  \<open>Max_plane\<close>, since \<open>Min\<close> and \<open>Max\<close> are constants of HOL.\<close>

record Settings =
  Width :: float64
  Height :: float64
  Min_plane :: float64
  Max_plane :: float64
  MaxIterations :: int
  Center :: Point

definition wrap64 :: "int \<Rightarrow> int" where
  "wrap64 k = (k + 2 ^ 63) mod 2 ^ 64 - 2 ^ 63"

definition in_int64 :: "int \<Rightarrow> bool" where
  "in_int64 k = (- (2 ^ 63) \<le> k \<and> k < 2 ^ 63)"

text \<open>Conversion of a float to an integer type truncates towards zero.\<close>

definition trunc :: "real \<Rightarrow> int" where
  "trunc r = (if 0 \<le> r then \<lfloor>r\<rfloor> else \<lceil>r\<rceil>)"

definition int_of_float :: "float64 \<Rightarrow> fault + int" where
  "int_of_float r = (if in_int64 (trunc r) then Inr (trunc r) else Inl Unrepresentable)"

definition uint64_of_float :: "float64 \<Rightarrow> fault + nat" where
  "uint64_of_float r =
     (if 0 \<le> trunc r \<and> trunc r < 2 ^ 64 then Inr (nat (trunc r)) else Inl Unrepresentable)"

definition uint8_of_float :: "float64 \<Rightarrow> fault + uint8" where
  "uint8_of_float r =
     (if 0 \<le> trunc r \<and> trunc r < 256 then Inr (word_of_int (trunc r)) else Inl Unrepresentable)"

section \<open>The escape-time evaluator (\<^verbatim>\<open>mandelbrotWorker\<close>)\<close>

text \<open>Lines 323--325. The fault stands for the division by \<open>in_max - in_min = 0\<close>.\<close>

definition mapToRange :: "float64 \<Rightarrow> float64 \<Rightarrow> float64 \<Rightarrow> float64 \<Rightarrow> float64 \<Rightarrow> fault + float64" where
  "mapToRange val in_min in_max out_min out_max =
     (if in_max - in_min = 0 then Inl DivisionByZero
      else Inr ((val - in_min) * (out_max - out_min) / (in_max - in_min) + out_min))"

text \<open>Lines 345--355: the pixel is mapped into the plane and the centre is subtracted.\<close>

definition plane_point :: "Point \<Rightarrow> Settings \<Rightarrow> fault + (float64 \<times> float64)" where
  "plane_point pt s =
    (let i = X pt; j = Y pt in
     case mapToRange i 0 (Width s) (Min_plane s) (Max_plane s) of
       Inl e \<Rightarrow> Inl e
     | Inr x \<Rightarrow>
        (case mapToRange j 0 (Height s) (Min_plane s) (Max_plane s) of
           Inl e \<Rightarrow> Inl e
         | Inr y \<Rightarrow> Inr (x - X (Center s), y - Y (Center s))))"

text \<open>
  Lines 357--369: the loop \<^verbatim>\<open>for z = 0; z < settings.MaxIterations; z++\<close> with its
  \<^verbatim>\<open>break\<close>; the value is the final \<^verbatim>\<open>iters\<close>. Both counters stay below
  \<open>MaxIterations\<close>, an \<^verbatim>\<open>int64\<close>, so their increments never wrap.
\<close>

function escape_loop ::
  "float64 \<Rightarrow> float64 \<Rightarrow> int \<Rightarrow> float64 \<Rightarrow> float64 \<Rightarrow> int \<Rightarrow> int \<Rightarrow> int" where
  "escape_loop x0 y0 maxIter x y z iters =
    (if z < maxIter then
       (let x1 = x * x - y * y;
            y1 = 2 * x * y;
            x' = x1 + x0;
            y' = y1 + y0
        in if x' + y' > 2 then iters
           else escape_loop x0 y0 maxIter x' y' (z + 1) (iters + 1))
     else iters)"
  by pat_completeness auto
termination
  by (relation "measure (\<lambda>(x0, y0, maxIter, x, y, z, iters). nat (maxIter - z))") auto

declare escape_loop.simps [simp del]

text \<open>Lines 371--374: the normalised level, forced to 0 for points that did not escape
  and for levels below 20.\<close>

definition colour_level :: "int \<Rightarrow> int \<Rightarrow> fault + float64" where
  "colour_level iters maxIter =
    (case mapToRange (real_of_int iters) 0 (real_of_int maxIter) 0 255 of
       Inl e \<Rightarrow> Inl e
     | Inr col \<Rightarrow> Inr (if iters = maxIter \<or> col < 20 then 0 else col))"

definition go_sqrt :: "float64 \<Rightarrow> fault + float64" where
  "go_sqrt r = (if r < 0 then Inl SqrtOfNegative else Inr (sqrt r))"

text \<open>
  Lines 376--384: the three channel remaps and their conversion to \<^verbatim>\<open>uint8\<close>. In Go
  the argument \<^verbatim>\<open>255/2\<close> is a constant expression of two untyped integer constants, so
  it is the integer quotient, converted to \<^verbatim>\<open>float64\<close> afterwards; \<^verbatim>\<open>col/2\<close> is a
  float division.
\<close>

definition channels :: "float64 \<Rightarrow> fault + (uint8 \<times> uint8 \<times> uint8)" where
  "channels col =
    (case mapToRange (col * col) 0 (255 * 255) 0 255 of Inl e \<Rightarrow> Inl e | Inr red \<Rightarrow>
     (case mapToRange (col / 2) 0 (real_of_int (255 div 2)) 0 255 of Inl e \<Rightarrow> Inl e | Inr green \<Rightarrow>
      (case go_sqrt col of Inl e \<Rightarrow> Inl e | Inr sc \<Rightarrow>
       (case go_sqrt 255 of Inl e \<Rightarrow> Inl e | Inr s255 \<Rightarrow>
        (case mapToRange sc 0 s255 0 255 of Inl e \<Rightarrow> Inl e | Inr blue \<Rightarrow>
         (case uint8_of_float red of Inl e \<Rightarrow> Inl e | Inr r \<Rightarrow>
          (case uint8_of_float green of Inl e \<Rightarrow> Inl e | Inr g \<Rightarrow>
           (case uint8_of_float blue of Inl e \<Rightarrow> Inl e | Inr b \<Rightarrow> Inr (r, g, b)))))))))"

text \<open>Lines 342--388. The value is the point sent on the \<^verbatim>\<open>jobs\<close> channel.\<close>

definition mandelbrotWorker :: "Point \<Rightarrow> Settings \<Rightarrow> fault + Point" where
  "mandelbrotWorker pt s =
    (case plane_point pt s of Inl e \<Rightarrow> Inl e | Inr (x0, y0) \<Rightarrow>
     (let iters = escape_loop x0 y0 (MaxIterations s) x0 y0 0 0 in
      case colour_level iters (MaxIterations s) of Inl e \<Rightarrow> Inl e | Inr col \<Rightarrow>
      (case channels col of Inl e \<Rightarrow> Inl e | Inr (r, g, b) \<Rightarrow>
         Inr \<lparr> X = X pt, Y = Y pt, Red = r, Green = g, Blue = b \<rparr>)))"

text \<open>
  The orbit of the quadratic map in the words of the specification: \<open>orbit x0 y0 k\<close> is the
  running point after \<open>k\<close> updates \<open>xNext = x*x - y*y + x0\<close>, \<open>yNext = 2*x*y + y0\<close>, starting
  from \<open>(x0, y0)\<close>; a point has escaped when \<open>x + y > 2\<close>.
\<close>

fun orbit :: "float64 \<Rightarrow> float64 \<Rightarrow> nat \<Rightarrow> float64 \<times> float64" where
  "orbit x0 y0 0 = (x0, y0)"
| "orbit x0 y0 (Suc k) =
     (case orbit x0 y0 k of (x, y) \<Rightarrow> (x * x - y * y + x0, 2 * x * y + y0))"

definition escaped :: "float64 \<times> float64 \<Rightarrow> bool" where
  "escaped p = (fst p + snd p > 2)"

section \<open>The framebuffer (\<^verbatim>\<open>MandelbrotImage\<close>)\<close>

text \<open>
  The fields \<^verbatim>\<open>Width\<close> and \<^verbatim>\<open>Height\<close> are named \<open>mi_Width\<close> and \<open>mi_Height\<close> to keep
  them apart from those of the settings. The mutex, the pointer to the settings and the
  \<^verbatim>\<open>Jobs\<close> channel are left out of the record: \<^verbatim>\<open>DrawPoint\<close> runs under the mutex,
  so its calls are serialised and each is a function from buffer to buffer; the settings
  are held by the state of the program.
\<close>

record MandelbrotImage =
  mi_Width :: float64
  mi_Height :: float64
  Pixels :: "uint8 list"

text \<open>Lines 267--275. \<^verbatim>\<open>make\<close> gives a zeroed slice and panics on a negative length.\<close>

definition NewMandelbrotImage :: "float64 \<Rightarrow> float64 \<Rightarrow> fault + MandelbrotImage" where
  "NewMandelbrotImage width height =
    (case int_of_float (width * height * 4) of Inl e \<Rightarrow> Inl e | Inr n \<Rightarrow>
       if n < 0 then Inl LenOutOfRange
       else Inr \<lparr> mi_Width = width, mi_Height = height, Pixels = replicate (nat n) 0 \<rparr>)"

text \<open>
  An indexed assignment \<^verbatim>\<open>px[i] = v\<close>. The index is in range when \<open>0 \<le> i < len(px)\<close>;
  the length of a slice is an \<^verbatim>\<open>int\<close>, so no index from \<open>2 ^ 63\<close> on is in range.
\<close>

definition store :: "uint8 list \<Rightarrow> int \<Rightarrow> uint8 \<Rightarrow> fault + uint8 list" where
  "store px i v =
     (if 0 \<le> i \<and> i < int (length px) \<and> i < 2 ^ 63 then Inr (px[nat i := v])
      else Inl IndexOutOfRange)"

text \<open>Lines 278--284: the loop of \<^verbatim>\<open>Init\<close> over the \<^verbatim>\<open>uint64\<close> counter \<open>i\<close>, with bound
  \<open>n = uint64(mi.Width*mi.Height)\<close>.\<close>

function Init_loop :: "nat \<Rightarrow> nat \<Rightarrow> uint8 list \<Rightarrow> fault + uint8 list" where
  "Init_loop n i px =
    (if i < n then
       (case store px (int i) 0 of Inl e \<Rightarrow> Inl e | Inr p1 \<Rightarrow>
        (case store p1 (int ((i + 1) mod 2 ^ 64)) 0 of Inl e \<Rightarrow> Inl e | Inr p2 \<Rightarrow>
         (case store p2 (int ((i + 2) mod 2 ^ 64)) 0 of Inl e \<Rightarrow> Inl e | Inr p3 \<Rightarrow>
          (case store p3 (int ((i + 3) mod 2 ^ 64)) 0 of Inl e \<Rightarrow> Inl e | Inr p4 \<Rightarrow>
             Init_loop n ((i + 4) mod 2 ^ 64) p4))))
     else Inr px)"
  by pat_completeness auto
termination
  by (relation "measure (\<lambda>(n, i, px). n - i)") (auto simp: store_def split: if_splits)

declare Init_loop.simps [simp del]

text \<open>Lines 277--285.\<close>

definition Init :: "MandelbrotImage \<Rightarrow> fault + MandelbrotImage" where
  "Init mi =
    (case uint64_of_float (mi_Width mi * mi_Height mi) of Inl e \<Rightarrow> Inl e | Inr n \<Rightarrow>
     (case Init_loop n 0 (Pixels mi) of Inl e \<Rightarrow> Inl e | Inr px \<Rightarrow> Inr (mi\<lparr>Pixels := px\<rparr>)))"

text \<open>Lines 287--296. The index is computed in \<^verbatim>\<open>int\<close> arithmetic.\<close>

definition DrawPoint :: "Point \<Rightarrow> MandelbrotImage \<Rightarrow> fault + MandelbrotImage" where
  "DrawPoint point mi =
    (case int_of_float (Y point) of Inl e \<Rightarrow> Inl e | Inr py \<Rightarrow>
     (case int_of_float (mi_Width mi) of Inl e \<Rightarrow> Inl e | Inr w \<Rightarrow>
      (case int_of_float (X point) of Inl e \<Rightarrow> Inl e | Inr px \<Rightarrow>
       (let idx = wrap64 (wrap64 (wrap64 (py * w) * 4) + wrap64 (px * 4)) in
        case store (Pixels mi) idx (Red point) of Inl e \<Rightarrow> Inl e | Inr p1 \<Rightarrow>
        (case store p1 (wrap64 (idx + 1)) (Green point) of Inl e \<Rightarrow> Inl e | Inr p2 \<Rightarrow>
         (case store p2 (wrap64 (idx + 2)) (Blue point) of Inl e \<Rightarrow> Inl e | Inr p3 \<Rightarrow>
          (case store p3 (wrap64 (idx + 3)) 255 of Inl e \<Rightarrow> Inl e | Inr p4 \<Rightarrow>
             Inr (mi\<lparr>Pixels := p4\<rparr>))))))))"

section \<open>The settings at startup, the input handler and the run loop (\<^verbatim>\<open>main\<close>)\<close>

text \<open>Lines 401--411.\<close>

definition initial_settings :: Settings where
  "initial_settings =
     \<lparr> Width = 800, Height = 800, Min_plane = - 2.84, Max_plane = 2.0, MaxIterations = 200,
       Center = \<lparr> X = 0.5, Y = 0.0, Red = 0, Green = 0, Blue = 0 \<rparr> \<rparr>"

text \<open>
  The events that \<^verbatim>\<open>sdl.PollEvent\<close> returns. The handler looks at the key code of a
  keyboard event only (not at whether the key went down or up). The key codes are those
  of SDL2, which the earlier revision in the same file writes as numbers (lines 183--208).
\<close>

datatype Event = QuitEvent | KeyboardEvent int | OtherEvent

definition K_q :: int where "K_q = 113"
definition K_RIGHT :: int where "K_RIGHT = 1073741903"
definition K_LEFT :: int where "K_LEFT = 1073741904"
definition K_DOWN :: int where "K_DOWN = 1073741905"
definition K_UP :: int where "K_UP = 1073741906"
definition K_EQUALS :: int where "K_EQUALS = 61"
definition K_MINUS :: int where "K_MINUS = 45"

text \<open>
  The state of the program while the run loop runs: the settings, the two flags of the
  loop, the number of calls of \<^verbatim>\<open>ForceRender\<close> made so far, the image, and the workers
  in flight: the points of the goroutines that \<^verbatim>\<open>ForceRender\<close> has started with
  \<^verbatim>\<open>go mandelbrotWorker(...)\<close> and that have not yet delivered their pixel, in the order
  in which they were started. A pass is complete when none of its workers is in flight.
\<close>

record RunState =
  settings :: Settings
  running :: bool
  updateTexture :: bool
  passes :: nat
  image :: MandelbrotImage
  inflight :: "Point list"

definition set_center_X :: "float64 \<Rightarrow> Settings \<Rightarrow> Settings" where
  "set_center_X v s = s\<lparr>Center := (Center s)\<lparr>X := v\<rparr>\<rparr>"

definition set_center_Y :: "float64 \<Rightarrow> Settings \<Rightarrow> Settings" where
  "set_center_Y v s = s\<lparr>Center := (Center s)\<lparr>Y := v\<rparr>\<rparr>"

text \<open>The body of the \<^verbatim>\<open>case *sdl.KeyboardEvent\<close> branch, lines 456--492: a sequence of
  independent \<^verbatim>\<open>if\<close> statements on the key code.\<close>

definition handle_key :: "int \<Rightarrow> RunState \<Rightarrow> RunState" where
  "handle_key keyCode st0 =
    (let st1 = (if keyCode = K_q then st0\<lparr>running := False\<rparr> else st0);
         st2 = (if keyCode = K_LEFT
                then st1\<lparr>settings := set_center_X (X (Center (settings st1)) - 0.05) (settings st1),
                         updateTexture := True\<rparr> else st1);
         st3 = (if keyCode = K_RIGHT
                then st2\<lparr>settings := set_center_X (X (Center (settings st2)) + 0.05) (settings st2),
                         updateTexture := True\<rparr> else st2);
         st4 = (if keyCode = K_DOWN
                then st3\<lparr>settings := set_center_Y (Y (Center (settings st3)) + 0.05) (settings st3),
                         updateTexture := True\<rparr> else st3);
         st5 = (if keyCode = K_UP
                then st4\<lparr>settings := set_center_Y (Y (Center (settings st4)) - 0.05) (settings st4),
                         updateTexture := True\<rparr> else st4);
         st6 = (if keyCode = K_EQUALS
                then st5\<lparr>settings := (settings st5)
                           \<lparr>Min_plane := Min_plane (settings st5) + 0.15,
                            Max_plane := Max_plane (settings st5) - 0.1,
                            MaxIterations := wrap64 (MaxIterations (settings st5) + 5)\<rparr>,
                         updateTexture := True\<rparr> else st5);
         st7 = (if keyCode = K_MINUS
                then st6\<lparr>settings := (settings st6)
                           \<lparr>Min_plane := Min_plane (settings st6) - 0.15,
                            Max_plane := Max_plane (settings st6) + 0.1,
                            MaxIterations := wrap64 (MaxIterations (settings st6) - 5)\<rparr>,
                         updateTexture := True\<rparr> else st6)
     in st7)"

text \<open>The type switch on the event, lines 452--493.\<close>

fun handle_event :: "RunState \<Rightarrow> Event \<Rightarrow> RunState" where
  "handle_event st QuitEvent = st\<lparr>running := False\<rparr>"
| "handle_event st (KeyboardEvent keyCode) = handle_key keyCode st"
| "handle_event st OtherEvent = st"

text \<open>The inner loop that drains the event queue, line 451.\<close>

definition poll_events :: "Event list \<Rightarrow> RunState \<Rightarrow> RunState" where
  "poll_events evs st = foldl handle_event st evs"

text \<open>
  The points of one pass, in the order of the two nested loops of \<^verbatim>\<open>ForceRender\<close>
  (lines 302--311), whose bounds are \<open>w = int64(mi.Width)\<close> and \<open>h = int64(mi.Height)\<close>.
\<close>

definition pass_points :: "int \<Rightarrow> int \<Rightarrow> Point list" where
  "pass_points w h =
     concat (map (\<lambda>i. map (\<lambda>j. \<lparr> X = real_of_int i, Y = real_of_int j,
                                     Red = 0, Green = 0, Blue = 0 \<rparr>) [0..h - 1]) [0..w - 1])"

text \<open>
  \<^verbatim>\<open>ForceRender\<close> (lines 298--317) starts one worker per pixel and returns. The
  \<^verbatim>\<open>wg.Wait()\<close> of lines 313--315 runs in a goroutine of its own, which nothing waits
  for: the caller is not held back, so when \<^verbatim>\<open>ForceRender\<close> returns the workers it
  started are in flight. The height is converted only when the outer loop is entered.
\<close>

definition ForceRender :: "RunState \<Rightarrow> fault + RunState" where
  "ForceRender st =
    (case int_of_float (mi_Width (image st)) of Inl e \<Rightarrow> Inl e | Inr w \<Rightarrow>
       if 0 < w then
         (case int_of_float (mi_Height (image st)) of Inl e \<Rightarrow> Inl e | Inr h \<Rightarrow>
            Inr (st\<lparr>passes := passes st + 1, inflight := inflight st @ pass_points w h\<rparr>))
       else Inr (st\<lparr>passes := passes st + 1\<rparr>))"

text \<open>
  The program up to the entry of the run loop, lines 440--449: the image is made and
  initialised, \<^verbatim>\<open>ForceRender\<close> is called once, \<^verbatim>\<open>running\<close> is true and
  \<^verbatim>\<open>updateTexture\<close> is false.
\<close>

definition startup :: "fault + RunState" where
  "startup =
    (case NewMandelbrotImage (Width initial_settings) (Height initial_settings) of
       Inl e \<Rightarrow> Inl e
     | Inr mi \<Rightarrow>
        (case Init mi of
           Inl e \<Rightarrow> Inl e
         | Inr mi' \<Rightarrow>
             ForceRender \<lparr> settings = initial_settings, running = True, updateTexture = False,
                           passes = 0, image = mi', inflight = [] \<rparr>))"

text \<open>The state that \<open>startup\<close> yields (lemma \<open>startup_initial_state\<close> below): the run loop
  is entered with the 640000 workers of the first pass in flight.\<close>

definition initial_state :: RunState where
  "initial_state =
     \<lparr> settings = initial_settings, running = True, updateTexture = False, passes = 1,
       image = \<lparr> mi_Width = 800, mi_Height = 800, Pixels = replicate 2560000 0 \<rparr>,
       inflight = pass_points 800 800 \<rparr>"

text \<open>
  One iteration of the run loop (one presentation tick), lines 451--508, given the events
  pending at its start. Nothing in it waits for a worker: after \<^verbatim>\<open>ForceRender\<close> has
  returned the flag is cleared at once (lines 499--502).
\<close>

definition tick :: "Event list \<Rightarrow> RunState \<Rightarrow> fault + RunState" where
  "tick evs st0 =
    (let st1 = poll_events evs st0
     in if updateTexture st1
        then (case ForceRender st1 of Inl e \<Rightarrow> Inl e
              | Inr st2 \<Rightarrow> Inr (st2\<lparr>updateTexture := False\<rparr>))
        else Inr st1)"

text \<open>
  The \<open>k\<close>-th worker in flight finishes: it evaluates its point against the settings, which
  it reads through the pointer it was given (lines 309, 342--388), and \<^verbatim>\<open>imageWriter\<close>
  draws the point it sends (lines 327--333). The whole of it is taken as one step.
\<close>

definition worker_done :: "nat \<Rightarrow> RunState \<Rightarrow> fault + RunState" where
  "worker_done k st =
    (case mandelbrotWorker (inflight st ! k) (settings st) of Inl e \<Rightarrow> Inl e | Inr outpt \<Rightarrow>
     (case DrawPoint outpt (image st) of Inl e \<Rightarrow> Inl e | Inr mi \<Rightarrow>
        Inr (st\<lparr>image := mi, inflight := take k (inflight st) @ drop (Suc k) (inflight st)\<rparr>)))"

text \<open>
  The steps of the running program: the run loop makes a tick, whatever workers are in
  flight, or one of the workers in flight finishes.
\<close>

inductive step :: "RunState \<Rightarrow> RunState \<Rightarrow> bool" where
  step_tick: "running st \<Longrightarrow> tick evs st = Inr st' \<Longrightarrow> step st st'"
| step_worker: "k < length (inflight st) \<Longrightarrow> worker_done k st = Inr st' \<Longrightarrow> step st st'"

text \<open>The invariant of the settings that the specification asks for.\<close>

definition config_inv :: "Settings \<Rightarrow> bool" where
  "config_inv s =
     (Max_plane s > Min_plane s \<and> MaxIterations s \<ge> 1 \<and> Width s \<ge> 1 \<and> Height s \<ge> 1)"

text \<open>The net zoom of a list of events: the number of zoom-in key events minus the
  number of zoom-out key events in it.\<close>

fun net_zoom :: "Event list \<Rightarrow> int" where
  "net_zoom [] = 0"
| "net_zoom (KeyboardEvent keyCode # evs) =
     (if keyCode = K_EQUALS then 1 else if keyCode = K_MINUS then - 1 else 0) + net_zoom evs"
| "net_zoom (ev # evs) = net_zoom evs"

section \<open>The settings at startup\<close>

text \<open>
  Claim C6. At startup the configuration is width = 800, height = 800, planeMin = -2.84,
  planeMax = 2.0, maxIterations = 200 and center = (0.5, 0.0); it is the configuration of
  the state in which the run loop starts.
\<close>

theorem initial_configuration:
  "Width initial_settings = 800 \<and> Height initial_settings = 800 \<and>
   Min_plane initial_settings = - 284 / 100 \<and> Max_plane initial_settings = 2 \<and>
   MaxIterations initial_settings = 200 \<and>
   X (Center initial_settings) = 1 / 2 \<and> Y (Center initial_settings) = 0 \<and>
   settings initial_state = initial_settings"
  by (simp add: initial_settings_def initial_state_def)

section \<open>The input handler\<close>

lemmas key_defs = K_q_def K_LEFT_def K_RIGHT_def K_DOWN_def K_UP_def K_EQUALS_def K_MINUS_def

lemma wrap64_id: "in_int64 k \<Longrightarrow> wrap64 k = k"
  by (simp add: wrap64_def in_int64_def)

text \<open>
  Claim C5. A pan event changes \<open>center.x\<close> or \<open>center.y\<close> by 0.05 (left and up subtract,
  right and down add) and nothing else in the settings; a zoom-in event adds 0.15 to
  \<open>min\<close>, subtracts 0.10 from \<open>max\<close> and adds 5 to \<open>maxIterations\<close>; a zoom-out event does
  the inverse; each of the six sets the recompute trigger \<open>updateTexture\<close>. The addition on
  \<open>maxIterations\<close> is that of \<^verbatim>\<open>int64\<close>, which is the exact sum as long as the sum is in
  range.
\<close>

theorem pan_zoom_mutations:
  "handle_event st (KeyboardEvent K_LEFT) =
     st\<lparr>settings := (settings st)\<lparr>Center := (Center (settings st))\<lparr>X := X (Center (settings st)) - 0.05\<rparr>\<rparr>,
        updateTexture := True\<rparr> \<and>
   handle_event st (KeyboardEvent K_RIGHT) =
     st\<lparr>settings := (settings st)\<lparr>Center := (Center (settings st))\<lparr>X := X (Center (settings st)) + 0.05\<rparr>\<rparr>,
        updateTexture := True\<rparr> \<and>
   handle_event st (KeyboardEvent K_DOWN) =
     st\<lparr>settings := (settings st)\<lparr>Center := (Center (settings st))\<lparr>Y := Y (Center (settings st)) + 0.05\<rparr>\<rparr>,
        updateTexture := True\<rparr> \<and>
   handle_event st (KeyboardEvent K_UP) =
     st\<lparr>settings := (settings st)\<lparr>Center := (Center (settings st))\<lparr>Y := Y (Center (settings st)) - 0.05\<rparr>\<rparr>,
        updateTexture := True\<rparr> \<and>
   handle_event st (KeyboardEvent K_EQUALS) =
     st\<lparr>settings := (settings st)
          \<lparr>Min_plane := Min_plane (settings st) + 0.15,
           Max_plane := Max_plane (settings st) - 0.10,
           MaxIterations := wrap64 (MaxIterations (settings st) + 5)\<rparr>,
        updateTexture := True\<rparr> \<and>
   handle_event st (KeyboardEvent K_MINUS) =
     st\<lparr>settings := (settings st)
          \<lparr>Min_plane := Min_plane (settings st) - 0.15,
           Max_plane := Max_plane (settings st) + 0.10,
           MaxIterations := wrap64 (MaxIterations (settings st) - 5)\<rparr>,
        updateTexture := True\<rparr> \<and>
   (in_int64 (MaxIterations (settings st) + 5) \<longrightarrow>
      MaxIterations (settings (handle_event st (KeyboardEvent K_EQUALS))) = MaxIterations (settings st) + 5) \<and>
   (in_int64 (MaxIterations (settings st) - 5) \<longrightarrow>
      MaxIterations (settings (handle_event st (KeyboardEvent K_MINUS))) = MaxIterations (settings st) - 5)"
  by (simp add: handle_key_def key_defs set_center_X_def set_center_Y_def wrap64_id)

theorem pan_zoom_mutations_witness:
  "in_int64 (MaxIterations (settings initial_state) + 5) \<and>
   in_int64 (MaxIterations (settings initial_state) - 5) \<and>
   settings (handle_event initial_state (KeyboardEvent K_EQUALS)) =
     initial_settings\<lparr>Min_plane := - 269 / 100, Max_plane := 19 / 10, MaxIterations := 205\<rparr> \<and>
   settings (handle_event initial_state (KeyboardEvent K_MINUS)) =
     initial_settings\<lparr>Min_plane := - 299 / 100, Max_plane := 21 / 10, MaxIterations := 195\<rparr> \<and>
   X (Center (settings (handle_event initial_state (KeyboardEvent K_LEFT)))) = 45 / 100 \<and>
   updateTexture (handle_event initial_state (KeyboardEvent K_LEFT))"
  using pan_zoom_mutations [of initial_state]
  by (simp add: initial_state_def initial_settings_def in_int64_def wrap64_def)

lemma poll_events_Nil: "poll_events [] st = st"
  by (simp add: poll_events_def)

lemma poll_events_Cons: "poll_events (ev # evs) st = poll_events evs (handle_event st ev)"
  by (simp add: poll_events_def)

lemma handle_key_passes: "passes (handle_key k st) = passes st"
  by (simp add: handle_key_def Let_def)

lemma handle_event_passes: "passes (handle_event st ev) = passes st"
  by (cases ev) (simp_all add: handle_key_passes)

lemma poll_events_passes: "passes (poll_events evs st) = passes st"
  by (induction evs arbitrary: st) (simp_all add: poll_events_Nil poll_events_Cons handle_event_passes)

lemma handle_key_image: "image (handle_key k st) = image st"
  by (simp add: handle_key_def Let_def)

lemma handle_event_image: "image (handle_event st ev) = image st"
  by (cases ev) (simp_all add: handle_key_image)

lemma poll_events_image: "image (poll_events evs st) = image st"
  by (induction evs arbitrary: st) (simp_all add: poll_events_Nil poll_events_Cons handle_event_image)

lemma handle_key_inflight: "inflight (handle_key k st) = inflight st"
  by (simp add: handle_key_def Let_def)

lemma handle_event_inflight: "inflight (handle_event st ev) = inflight st"
  by (cases ev) (simp_all add: handle_key_inflight)

lemma poll_events_inflight: "inflight (poll_events evs st) = inflight st"
  by (induction evs arbitrary: st)
     (simp_all add: poll_events_Nil poll_events_Cons handle_event_inflight)

lemma handle_key_settings:
  "in_int64 (MaxIterations (settings st) + 5) \<Longrightarrow> in_int64 (MaxIterations (settings st) - 5) \<Longrightarrow>
   Width (settings (handle_key k st)) = Width (settings st) \<and>
   Height (settings (handle_key k st)) = Height (settings st) \<and>
   Min_plane (settings (handle_key k st)) =
     Min_plane (settings st) + 0.15 * real_of_int (if k = K_EQUALS then 1 else if k = K_MINUS then - 1 else 0) \<and>
   Max_plane (settings (handle_key k st)) =
     Max_plane (settings st) - 0.1 * real_of_int (if k = K_EQUALS then 1 else if k = K_MINUS then - 1 else 0) \<and>
   MaxIterations (settings (handle_key k st)) =
     MaxIterations (settings st) + 5 * (if k = K_EQUALS then 1 else if k = K_MINUS then - 1 else 0)"
  by (simp add: handle_key_def Let_def set_center_X_def set_center_Y_def wrap64_id key_defs)

lemma settings_poll_events:
  "\<bar>MaxIterations (settings st)\<bar> + 5 * int (length evs) < 2 ^ 63 \<Longrightarrow>
   Width (settings (poll_events evs st)) = Width (settings st) \<and>
   Height (settings (poll_events evs st)) = Height (settings st) \<and>
   Min_plane (settings (poll_events evs st)) = Min_plane (settings st) + 0.15 * real_of_int (net_zoom evs) \<and>
   Max_plane (settings (poll_events evs st)) = Max_plane (settings st) - 0.1 * real_of_int (net_zoom evs) \<and>
   MaxIterations (settings (poll_events evs st)) = MaxIterations (settings st) + 5 * net_zoom evs"
proof (induction evs arbitrary: st)
  case Nil
  then show ?case by (simp add: poll_events_Nil)
next
  case (Cons ev evs)
  show ?case
  proof (cases ev)
    case QuitEvent
    then show ?thesis using Cons.IH[of "st\<lparr>running := False\<rparr>"] Cons.prems
      by (simp add: poll_events_Cons)
  next
    case OtherEvent
    then show ?thesis using Cons.IH[of st] Cons.prems
      by (simp add: poll_events_Cons)
  next
    case (KeyboardEvent k)
    define z :: int where "z = (if k = K_EQUALS then 1 else if k = K_MINUS then - 1 else 0)"
    have zb: "\<bar>z\<bar> \<le> 1" by (simp add: z_def)
    have r1: "in_int64 (MaxIterations (settings st) + 5)"
      and r2: "in_int64 (MaxIterations (settings st) - 5)"
      using Cons.prems by (auto simp: in_int64_def)
    note hk = handle_key_settings[OF r1 r2, of k, folded z_def]
    have "\<bar>MaxIterations (settings (handle_key k st))\<bar> + 5 * int (length evs) < 2 ^ 63"
      using hk zb Cons.prems by auto
    from Cons.IH[OF this] hk show ?thesis
      unfolding KeyboardEvent
      by (simp add: poll_events_Cons z_def algebra_simps)
  qed
qed

text \<open>
  Claim C2, as the code has it. The handler applies every mutation as it comes; nothing is
  clamped or refused. Pan events, width and height do not touch the invariant. Starting
  from the default configuration and after fewer than \<open>2 ^ 60\<close> events, the settings are
  the default ones shifted by the net zoom \<open>d\<close> of the events, and the invariant
  \<open>planeMax > planeMin\<close>, \<open>maxIterations \<ge> 1\<close>, \<open>width \<ge> 1\<close>, \<open>height \<ge> 1\<close> holds exactly when
  \<open>-39 \<le> d \<le> 19\<close>.
\<close>

theorem invariant_after_events:
  assumes len: "length evs < 2 ^ 60"
  shows "Width (settings (poll_events evs initial_state)) = 800 \<and>
         Height (settings (poll_events evs initial_state)) = 800 \<and>
         Min_plane (settings (poll_events evs initial_state)) = - 2.84 + 0.15 * real_of_int (net_zoom evs) \<and>
         Max_plane (settings (poll_events evs initial_state)) = 2.0 - 0.1 * real_of_int (net_zoom evs) \<and>
         MaxIterations (settings (poll_events evs initial_state)) = 200 + 5 * net_zoom evs \<and>
         (config_inv (settings (poll_events evs initial_state))
            \<longleftrightarrow> - 39 \<le> net_zoom evs \<and> net_zoom evs \<le> 19)"
proof -
  have s0: "settings initial_state = initial_settings"
    by (simp add: initial_state_def)
  have "int (length evs) < 2 ^ 60" using len by (metis of_nat_less_iff of_nat_numeral of_nat_power)
  then have "\<bar>MaxIterations (settings initial_state)\<bar> + 5 * int (length evs) < 2 ^ 63"
    by (simp add: s0 initial_settings_def)
  from settings_poll_events[OF this]
  have W: "Width (settings (poll_events evs initial_state)) = 800"
    and H: "Height (settings (poll_events evs initial_state)) = 800"
    and Mi: "Min_plane (settings (poll_events evs initial_state)) = - 2.84 + 0.15 * real_of_int (net_zoom evs)"
    and Ma: "Max_plane (settings (poll_events evs initial_state)) = 2.0 - 0.1 * real_of_int (net_zoom evs)"
    and It: "MaxIterations (settings (poll_events evs initial_state)) = 200 + 5 * net_zoom evs"
    by (simp_all add: s0 initial_settings_def)
  have "(2.0 - 0.1 * real_of_int (net_zoom evs) > - 2.84 + 0.15 * real_of_int (net_zoom evs))
          \<longleftrightarrow> net_zoom evs \<le> 19"
  proof -
    have "(2.0 - 0.1 * real_of_int (net_zoom evs) > - 2.84 + 0.15 * real_of_int (net_zoom evs))
          \<longleftrightarrow> real_of_int (net_zoom evs) < 19.36" by (simp add: field_simps)
    also have "\<dots> \<longleftrightarrow> net_zoom evs \<le> 19"
    proof
      assume "real_of_int (net_zoom evs) < 19.36"
      then have "real_of_int (net_zoom evs) < real_of_int 20" by simp
      then have "net_zoom evs < 20" by (simp only: of_int_less_iff)
      then show "net_zoom evs \<le> 19" by simp
    next
      assume "net_zoom evs \<le> 19"
      then have "real_of_int (net_zoom evs) \<le> real_of_int 19" by (simp only: of_int_le_iff)
      then show "real_of_int (net_zoom evs) < 19.36" by simp
    qed
    finally show ?thesis .
  qed
  moreover have "(1 \<le> 200 + 5 * net_zoom evs) \<longleftrightarrow> - 39 \<le> net_zoom evs" by auto
  ultimately have "config_inv (settings (poll_events evs initial_state))
            \<longleftrightarrow> - 39 \<le> net_zoom evs \<and> net_zoom evs \<le> 19"
    unfolding config_inv_def W H Mi Ma It by auto
  then show ?thesis using W H Mi Ma It by blast
qed

theorem invariant_after_events_witness:
  "length [KeyboardEvent K_EQUALS, KeyboardEvent K_LEFT, QuitEvent] < 2 ^ 60 \<and>
   net_zoom [KeyboardEvent K_EQUALS, KeyboardEvent K_LEFT, QuitEvent] = 1 \<and>
   MaxIterations (settings (poll_events [KeyboardEvent K_EQUALS, KeyboardEvent K_LEFT, QuitEvent] initial_state)) = 205 \<and>
   config_inv (settings (poll_events [KeyboardEvent K_EQUALS, KeyboardEvent K_LEFT, QuitEvent] initial_state))"
proof -
  have len: "length [KeyboardEvent K_EQUALS, KeyboardEvent K_LEFT, QuitEvent] < 2 ^ 60" by simp
  have nz: "net_zoom [KeyboardEvent K_EQUALS, KeyboardEvent K_LEFT, QuitEvent] = 1"
    by (simp add: key_defs)
  show ?thesis using len nz invariant_after_events[OF len] by simp
qed

text \<open>Claim C2, where it fails. The invariant holds at startup; twenty zoom-in events bring \<open>planeMax\<close> to 0 and
  \<open>planeMin\<close> to 0.16, and forty zoom-out events bring \<open>maxIterations\<close> to 0.\<close>

theorem invariant_broken_by_zoom:
  "config_inv (settings initial_state) \<and>
   \<not> config_inv (settings (poll_events (replicate 20 (KeyboardEvent K_EQUALS)) initial_state)) \<and>
   \<not> config_inv (settings (poll_events (replicate 40 (KeyboardEvent K_MINUS)) initial_state))"
proof -
  have s0: "settings initial_state = initial_settings" by (simp add: initial_state_def)
  have z1: "net_zoom (replicate 20 (KeyboardEvent K_EQUALS)) = 20" by code_simp
  have z2: "net_zoom (replicate 40 (KeyboardEvent K_MINUS)) = - 40" by code_simp
  have b1: "\<bar>MaxIterations (settings initial_state)\<bar>
              + 5 * int (length (replicate 20 (KeyboardEvent K_EQUALS))) < 2 ^ 63"
    by (simp add: s0 initial_settings_def)
  have b2: "\<bar>MaxIterations (settings initial_state)\<bar>
              + 5 * int (length (replicate 40 (KeyboardEvent K_MINUS))) < 2 ^ 63"
    by (simp add: s0 initial_settings_def)
  have a: "config_inv (settings initial_state)"
    by (simp add: s0 config_inv_def initial_settings_def)
  have b: "\<not> config_inv (settings (poll_events (replicate 20 (KeyboardEvent K_EQUALS)) initial_state))"
    using settings_poll_events[OF b1]
    by (simp add: config_inv_def z1 s0 initial_settings_def)
  have c: "\<not> config_inv (settings (poll_events (replicate 40 (KeyboardEvent K_MINUS)) initial_state))"
    using settings_poll_events[OF b2]
    by (simp add: config_inv_def z2 s0 initial_settings_def)
  show ?thesis using a b c by simp
qed

section \<open>The escape-time evaluator: the iteration\<close>

text \<open>The three ways one test of the loop condition can go.\<close>

lemma escape_loop_done: "\<not> z < M \<Longrightarrow> escape_loop x0 y0 M x y z iters = iters"
  by (subst escape_loop.simps) simp

lemma escape_loop_break:
  "z < M \<Longrightarrow> x * x - y * y + x0 + (2 * x * y + y0) > 2 \<Longrightarrow>
   escape_loop x0 y0 M x y z iters = iters"
  by (subst escape_loop.simps) (simp add: Let_def)

lemma escape_loop_step:
  "z < M \<Longrightarrow> \<not> x * x - y * y + x0 + (2 * x * y + y0) > 2 \<Longrightarrow>
   escape_loop x0 y0 M x y z iters =
   escape_loop x0 y0 M (x * x - y * y + x0) (2 * x * y + y0) (z + 1) (iters + 1)"
  by (subst escape_loop.simps) (simp add: Let_def)

lemma escape_loop_orbit:
  "orbit x0 y0 n = (x, y) \<Longrightarrow> int n \<le> M \<Longrightarrow> d = nat (M - int n) \<Longrightarrow>
   int n \<le> escape_loop x0 y0 M x y (int n) (int n) \<and>
   escape_loop x0 y0 M x y (int n) (int n) \<le> M \<and>
   (\<forall>k. n < k \<and> int k \<le> escape_loop x0 y0 M x y (int n) (int n) \<longrightarrow> \<not> escaped (orbit x0 y0 k)) \<and>
   (escape_loop x0 y0 M x y (int n) (int n) < M \<longrightarrow>
      escaped (orbit x0 y0 (nat (escape_loop x0 y0 M x y (int n) (int n)) + 1)))"
proof (induction d arbitrary: n x y)
  case 0
  then have "int n = M" by simp
  have e: "escape_loop x0 y0 M x y (int n) (int n) = int n"
    using \<open>int n = M\<close> by (simp add: escape_loop_done)
  have "\<not> int n < M" using \<open>int n = M\<close> by simp
  then show ?case unfolding e using \<open>int n = M\<close> by auto
next
  case (Suc d)
  let ?x' = "x * x - y * y + x0" and ?y' = "2 * x * y + y0"
  have lt: "int n < M" using Suc.prems by simp
  have step: "orbit x0 y0 (Suc n) = (?x', ?y')" using Suc.prems(1) by simp
  show ?case
  proof (cases "?x' + ?y' > 2")
    case True
    then have r: "escape_loop x0 y0 M x y (int n) (int n) = int n"
      using lt by (simp add: escape_loop_break)
    have "escaped (orbit x0 y0 (Suc n))" using True step by (simp add: escaped_def)
    then show ?thesis unfolding r using lt by auto
  next
    case False
    define r' where "r' = escape_loop x0 y0 M ?x' ?y' (int (Suc n)) (int (Suc n))"
    have r: "escape_loop x0 y0 M x y (int n) (int n) = r'"
    proof -
      have "escape_loop x0 y0 M x y (int n) (int n) =
            escape_loop x0 y0 M ?x' ?y' (int n + 1) (int n + 1)"
        by (rule escape_loop_step[OF lt False])
      moreover have "int n + 1 = int (Suc n)" by simp
      ultimately show ?thesis unfolding r'_def by simp
    qed
    have ne: "\<not> escaped (orbit x0 y0 (Suc n))" using False step by (simp add: escaped_def)
    have d: "d = nat (M - int (Suc n))" using Suc.prems(3) by simp
    have le: "int (Suc n) \<le> M" using lt by simp
    have ih: "int (Suc n) \<le> r' \<and> r' \<le> M \<and>
       (\<forall>k. Suc n < k \<and> int k \<le> r' \<longrightarrow> \<not> escaped (orbit x0 y0 k)) \<and>
       (r' < M \<longrightarrow> escaped (orbit x0 y0 (nat r' + 1)))"
      unfolding r'_def by (rule Suc.IH[OF step le d])
    have all: "\<forall>k. n < k \<and> int k \<le> r' \<longrightarrow> \<not> escaped (orbit x0 y0 k)"
    proof (intro allI impI)
      fix k assume k: "n < k \<and> int k \<le> r'"
      show "\<not> escaped (orbit x0 y0 k)"
      proof (cases "k = Suc n")
        case True then show ?thesis using ne by simp
      next
        case False
        then have "Suc n < k" using k by simp
        then show ?thesis using ih k by blast
      qed
    qed
    show ?thesis unfolding r using ih all by simp
  qed
qed

lemma trunc_0: "trunc 0 = 0" by (simp add: trunc_def)

lemma uint8_of_float_0: "uint8_of_float 0 = Inr 0"
  by (simp add: uint8_of_float_def trunc_def)

lemma channels_0: "channels 0 = Inr (0, 0, 0)"
  by (simp add: channels_def mapToRange_def go_sqrt_def uint8_of_float_0)

lemma plane_point_eq:
  "Width s \<noteq> 0 \<Longrightarrow> Height s \<noteq> 0 \<Longrightarrow>
   plane_point pt s =
     Inr (X pt * (Max_plane s - Min_plane s) / Width s + Min_plane s - X (Center s),
          Y pt * (Max_plane s - Min_plane s) / Height s + Min_plane s - Y (Center s))"
  by (simp add: plane_point_def mapToRange_def)

lemma colour_level_eq:
  "M \<noteq> 0 \<Longrightarrow> colour_level iters M =
     Inr (if iters = M \<or> real_of_int iters * 255 / real_of_int M < 20 then 0
          else real_of_int iters * 255 / real_of_int M)"
  by (simp add: colour_level_def mapToRange_def)

lemma channels_no_div: "channels col \<noteq> Inl DivisionByZero"
  by (simp add: channels_def mapToRange_def go_sqrt_def uint8_of_float_def split: sum.splits)

lemma config_inv_initial: "config_inv initial_settings"
  by (simp add: config_inv_def initial_settings_def)

text \<open>
  Claim C1. For a pixel \<open>(i, j)\<close> with \<open>0 \<le> i < width\<close> and \<open>0 \<le> j < height\<close> and a
  configuration with \<open>maxIterations \<ge> 1\<close>, the evaluator maps the pixel linearly from \<open>[0, width)\<close> and \<open>[0, height)\<close> to \<open>[min, max]\<close> and subtracts
  the centre to get \<open>(x0, y0)\<close>; it then iterates \<open>xNext = x*x - y*y + x0\<close>,
  \<open>yNext = 2*x*y + y0\<close> at most \<open>maxIterations\<close> times and stops as soon as \<open>x + y > 2\<close>
  after an update. The count \<open>iters\<close> is the number of updates that did not escape before
  the break: none of the first \<open>iters\<close> updates escaped, update \<open>iters + 1\<close> escaped when
  \<open>iters < maxIterations\<close>, and \<open>iters = maxIterations\<close> when no update escapes. The colour
  is computed from that count.
\<close>

theorem mandelbrotWorker_escape_time:
  assumes i: "0 \<le> X pt \<and> X pt < Width s"
    and j: "0 \<le> Y pt \<and> Y pt < Height s"
    and mx: "1 \<le> MaxIterations s"
    and x0: "x0 = X pt * (Max_plane s - Min_plane s) / Width s + Min_plane s - X (Center s)"
    and y0: "y0 = Y pt * (Max_plane s - Min_plane s) / Height s + Min_plane s - Y (Center s)"
    and it: "iters = escape_loop x0 y0 (MaxIterations s) x0 y0 0 0"
  shows "plane_point pt s = Inr (x0, y0) \<and>
         0 \<le> iters \<and> iters \<le> MaxIterations s \<and>
         (\<forall>k. 1 \<le> k \<and> int k \<le> iters \<longrightarrow> \<not> escaped (orbit x0 y0 k)) \<and>
         (iters < MaxIterations s \<longrightarrow> escaped (orbit x0 y0 (nat iters + 1))) \<and>
         ((\<forall>k. 1 \<le> k \<and> int k \<le> MaxIterations s \<longrightarrow> \<not> escaped (orbit x0 y0 k))
            \<longrightarrow> iters = MaxIterations s) \<and>
         mandelbrotWorker pt s =
           (case colour_level iters (MaxIterations s) of Inl e \<Rightarrow> Inl e | Inr col \<Rightarrow>
            (case channels col of Inl e \<Rightarrow> Inl e | Inr (r, g, b) \<Rightarrow>
               Inr \<lparr> X = X pt, Y = Y pt, Red = r, Green = g, Blue = b \<rparr>))"
proof -
  have W: "Width s \<noteq> 0" and H: "Height s \<noteq> 0" and M: "0 \<le> MaxIterations s"
    using i j mx by auto
  have pp: "plane_point pt s = Inr (x0, y0)"
    unfolding x0 y0 by (rule plane_point_eq[OF W H])
  have orb: "orbit x0 y0 0 = (x0, y0)" by simp
  have "int 0 \<le> MaxIterations s" using M by simp
  from escape_loop_orbit[OF orb this refl]
  have A: "0 \<le> iters" and B: "iters \<le> MaxIterations s"
    and C: "\<forall>k. 0 < k \<and> int k \<le> iters \<longrightarrow> \<not> escaped (orbit x0 y0 k)"
    and D: "iters < MaxIterations s \<longrightarrow> escaped (orbit x0 y0 (nat iters + 1))"
    unfolding it by simp_all
  have C': "\<forall>k. 1 \<le> k \<and> int k \<le> iters \<longrightarrow> \<not> escaped (orbit x0 y0 k)"
    using C by auto
  have E: "(\<forall>k. 1 \<le> k \<and> int k \<le> MaxIterations s \<longrightarrow> \<not> escaped (orbit x0 y0 k))
            \<longrightarrow> iters = MaxIterations s"
  proof
    assume none: "\<forall>k. 1 \<le> k \<and> int k \<le> MaxIterations s \<longrightarrow> \<not> escaped (orbit x0 y0 k)"
    show "iters = MaxIterations s"
    proof (rule ccontr)
      assume "iters \<noteq> MaxIterations s"
      then have lt: "iters < MaxIterations s" using B by simp
      then have "escaped (orbit x0 y0 (nat iters + 1))" using D by simp
      moreover have "1 \<le> nat iters + 1 \<and> int (nat iters + 1) \<le> MaxIterations s"
        using A lt by simp
      ultimately show False using none by blast
    qed
  qed
  have F: "mandelbrotWorker pt s =
           (case colour_level iters (MaxIterations s) of Inl e \<Rightarrow> Inl e | Inr col \<Rightarrow>
            (case channels col of Inl e \<Rightarrow> Inl e | Inr (r, g, b) \<Rightarrow>
               Inr \<lparr> X = X pt, Y = Y pt, Red = r, Green = g, Blue = b \<rparr>))"
    by (simp add: mandelbrotWorker_def pp it Let_def)
  show ?thesis using pp A B C' D E F by blast
qed

theorem mandelbrotWorker_escape_time_witness:
  "plane_point \<lparr> X = 50, Y = 50, Red = 0, Green = 0, Blue = 0 \<rparr>
     \<lparr> Width = 100, Height = 100, Min_plane = - 1, Max_plane = 1, MaxIterations = 50,
       Center = \<lparr> X = 0, Y = 0, Red = 0, Green = 0, Blue = 0 \<rparr> \<rparr> = Inr (0, 0) \<and>
   escape_loop 0 0 50 0 0 0 0 = 50 \<and>
   \<not> escaped (orbit 0 0 50) \<and>
   mandelbrotWorker \<lparr> X = 50, Y = 50, Red = 0, Green = 0, Blue = 0 \<rparr>
     \<lparr> Width = 100, Height = 100, Min_plane = - 1, Max_plane = 1, MaxIterations = 50,
       Center = \<lparr> X = 0, Y = 0, Red = 0, Green = 0, Blue = 0 \<rparr> \<rparr>
     = Inr \<lparr> X = 50, Y = 50, Red = 0, Green = 0, Blue = 0 \<rparr>"
proof -
  let ?s = "\<lparr> Width = 100, Height = 100, Min_plane = - 1, Max_plane = 1, MaxIterations = 50,
       Center = \<lparr> X = 0, Y = 0, Red = 0, Green = 0, Blue = 0 \<rparr> \<rparr>"
  let ?p = "\<lparr> X = 50, Y = 50, Red = 0, Green = 0, Blue = 0 \<rparr>"
  have i: "0 \<le> X ?p \<and> X ?p < Width ?s" by simp
  have j: "0 \<le> Y ?p \<and> Y ?p < Height ?s" by simp
  have mx: "1 \<le> MaxIterations ?s" by simp
  have x0: "0 = X ?p * (Max_plane ?s - Min_plane ?s) / Width ?s + Min_plane ?s - X (Center ?s)"
    by simp
  have y0: "0 = Y ?p * (Max_plane ?s - Min_plane ?s) / Height ?s + Min_plane ?s - Y (Center ?s)"
    by simp
  have it: "50 = escape_loop 0 0 (MaxIterations ?s) 0 0 0 0"
    by (simp add: escape_loop_step escape_loop_done)
  have cl: "colour_level 50 50 = Inr 0" by (simp add: colour_level_def mapToRange_def)
  show ?thesis
    using it[symmetric] mandelbrotWorker_escape_time[OF i j mx x0 y0 it]
    by (simp add: cl channels_0)
qed

section \<open>The escape-time evaluator: the colour\<close>

text \<open>
  Claim C4. For a configuration with \<open>maxIterations \<ge> 1\<close>, if the iteration count of a
  pixel equals \<open>maxIterations\<close>, or its normalised level
  \<open>map(iters, 0, maxIterations, 0, 255)\<close> is below 20, the evaluator returns the colour
  \<open>(0, 0, 0)\<close>.
\<close>

theorem colour_floor:
  assumes mx: "1 \<le> MaxIterations s"
    and pp: "plane_point pt s = Inr (x0, y0)"
    and it: "iters = escape_loop x0 y0 (MaxIterations s) x0 y0 0 0"
    and lv: "mapToRange (real_of_int iters) 0 (real_of_int (MaxIterations s)) 0 255 = Inr level"
    and fl: "iters = MaxIterations s \<or> level < 20"
  shows "mandelbrotWorker pt s = Inr \<lparr> X = X pt, Y = Y pt, Red = 0, Green = 0, Blue = 0 \<rparr>"
proof -
  have "colour_level iters (MaxIterations s) = Inr 0"
    using lv fl by (auto simp: colour_level_def)
  then show ?thesis
    by (simp add: mandelbrotWorker_def pp it[symmetric] Let_def channels_0)
qed

theorem colour_floor_witness:
  "1 \<le> MaxIterations initial_settings \<and>
   plane_point \<lparr> X = 799, Y = 799, Red = 0, Green = 0, Blue = 0 \<rparr> initial_settings
     = Inr (29879 / 20000, 39879 / 20000) \<and>
   escape_loop (29879 / 20000) (39879 / 20000) 200 (29879 / 20000) (39879 / 20000) 0 0 = 0 \<and>
   mapToRange 0 0 200 0 255 = Inr 0 \<and>
   mandelbrotWorker \<lparr> X = 799, Y = 799, Red = 0, Green = 0, Blue = 0 \<rparr> initial_settings
     = Inr \<lparr> X = 799, Y = 799, Red = 0, Green = 0, Blue = 0 \<rparr>"
proof -
  let ?p = "\<lparr> X = 799, Y = 799, Red = 0, Green = 0, Blue = 0 \<rparr>"
  have M: "MaxIterations initial_settings = 200" by (simp add: initial_settings_def)
  have pp: "plane_point ?p initial_settings = Inr (29879 / 20000, 39879 / 20000)"
    by (simp add: plane_point_def mapToRange_def initial_settings_def)
  have it: "0 = escape_loop (29879 / 20000) (39879 / 20000) (MaxIterations initial_settings)
                  (29879 / 20000) (39879 / 20000) 0 0"
    unfolding M by (simp add: escape_loop_break)
  have lv: "mapToRange (real_of_int 0) 0 (real_of_int (MaxIterations initial_settings)) 0 255 = Inr 0"
    unfolding M by (simp add: mapToRange_def)
  have fl: "(0::int) = MaxIterations initial_settings \<or> (0::real) < 20" by simp
  have mx: "1 \<le> MaxIterations initial_settings" by (simp add: M)
  show ?thesis
    using mx pp it[symmetric] lv colour_floor[OF mx pp it lv fl]
    by (simp add: M)
qed

text \<open>
  Claim C7. Under the invariant no call of \<open>mapToRange\<close> made by the evaluator has
  \<open>in_max = in_min\<close>: neither the two calls that map the pixel, nor the call that
  normalises the count, nor the three channel remaps, and so the evaluator as a whole
  never divides by zero.
\<close>

theorem mapToRange_never_divides_by_zero:
  assumes inv: "config_inv s"
  shows "plane_point pt s \<noteq> Inl DivisionByZero \<and>
         colour_level iters (MaxIterations s) \<noteq> Inl DivisionByZero \<and>
         channels col \<noteq> Inl DivisionByZero \<and>
         mandelbrotWorker pt s \<noteq> Inl DivisionByZero"
proof -
  have W: "Width s \<noteq> 0" and H: "Height s \<noteq> 0" and M: "MaxIterations s \<noteq> 0"
    using inv by (auto simp: config_inv_def)
  have 1: "plane_point pt s \<noteq> Inl DivisionByZero" by (simp add: plane_point_eq[OF W H])
  have 2: "\<And>i. colour_level i (MaxIterations s) \<noteq> Inl DivisionByZero"
    by (simp add: colour_level_eq[OF M])
  have 3: "\<And>c. channels c \<noteq> Inl DivisionByZero" by (rule channels_no_div)
  have 4: "mandelbrotWorker pt s \<noteq> Inl DivisionByZero"
    using 1 2 3 by (auto simp: mandelbrotWorker_def Let_def split: sum.splits prod.splits)
  show ?thesis using 1 2 3 4 by blast
qed

theorem mapToRange_never_divides_by_zero_witness:
  "config_inv initial_settings \<and>
   plane_point \<lparr> X = 0, Y = 0, Red = 0, Green = 0, Blue = 0 \<rparr> initial_settings \<noteq> Inl DivisionByZero \<and>
   colour_level 0 200 \<noteq> Inl DivisionByZero \<and>
   channels 0 \<noteq> Inl DivisionByZero \<and>
   mandelbrotWorker \<lparr> X = 0, Y = 0, Red = 0, Green = 0, Blue = 0 \<rparr> initial_settings
     \<noteq> Inl DivisionByZero"
proof -
  have M: "MaxIterations initial_settings = 200" by (simp add: initial_settings_def)
  show ?thesis
    using config_inv_initial
      mapToRange_never_divides_by_zero[OF config_inv_initial,
        of "\<lparr> X = 0, Y = 0, Red = 0, Green = 0, Blue = 0 \<rparr>" 0 0]
    by (simp add: M)
qed

text \<open>
  Claim C8. At level 0 the three channels are 0, and at level 255 the red and the blue
  remap yield 255. The green remap \<open>map(level/2, 0, 255/2, 0, 255)\<close> has
  \<open>in_max = 127\<close>, the integer quotient, so at level 255 it yields \<open>65025 / 254\<close>, a little
  above 256, which no 8-bit unsigned value holds; the channels at level 255 are therefore
  not \<open>(255, 255, 255)\<close>.
\<close>

theorem channels_at_level_255:
  "mapToRange (255 * 255) 0 (255 * 255) 0 255 = Inr 255 \<and>
   mapToRange (255 / 2) 0 (real_of_int (255 div 2)) 0 255 = Inr (65025 / 254) \<and>
   mapToRange (sqrt 255) 0 (sqrt 255) 0 255 = Inr 255 \<and>
   uint8_of_float 255 = Inr 255 \<and>
   uint8_of_float (65025 / 254) = Inl Unrepresentable \<and>
   channels 255 = Inl Unrepresentable \<and>
   channels 0 = Inr (0, 0, 0)"
  by (simp add: channels_def mapToRange_def go_sqrt_def uint8_of_float_def trunc_def)

section \<open>The framebuffer\<close>

lemma trunc_of_nat: "trunc (real n) = int n"
  by (simp add: trunc_def)

lemma int_of_float_of_nat: "int n < 2 ^ 63 \<Longrightarrow> int_of_float (real n) = Inr (int n)"
  by (simp add: int_of_float_def trunc_of_nat in_int64_def)

lemma wrap64_nonneg: "0 \<le> k \<Longrightarrow> k < 2 ^ 63 \<Longrightarrow> wrap64 k = k"
  by (simp add: wrap64_def)

lemma store_ok: "i < length px \<Longrightarrow> int i < 2 ^ 63 \<Longrightarrow> store px (int i) v = Inr (px[i := v])"
  by (simp add: store_def)

lemma offset_bound:
  assumes "(x::nat) < w" "(y::nat) < h"
  shows "y * w * 4 + x * 4 + 3 < 4 * w * h"
proof -
  have "y * w + x < (y + 1) * w" using assms by (simp add: add_mult_distrib)
  also have "\<dots> \<le> h * w"
  proof -
    have "y + 1 \<le> h" using assms by simp
    then show ?thesis by (rule mult_le_mono1)
  qed
  finally have "y * w + x + 1 \<le> h * w" by simp
  then have "4 * (y * w + x + 1) \<le> 4 * (h * w)" by (rule mult_le_mono2)
  then show ?thesis by (simp add: algebra_simps)
qed

text \<open>
  Claim C9. For a point \<open>(x, y)\<close> with \<open>0 \<le> x < width\<close> and \<open>0 \<le> y < height\<close> on a buffer of
  \<open>width * height * 4\<close> bytes, \<open>DrawPoint\<close> succeeds and writes the four bytes at the
  row-major offset \<open>y*width*4 + x*4\<close>: red, green, blue and 255, in that order. The buffer
  keeps its length and every other byte keeps its value.
\<close>

theorem DrawPoint_writes_pixel:
  assumes W: "mi_Width mi = real w" and H: "mi_Height mi = real h"
    and X: "X point = real x" and Y: "Y point = real y"
    and x: "x < w" and y: "y < h"
    and len: "length (Pixels mi) = 4 * w * h"
    and sz: "int (4 * w * h) < 2 ^ 63"
    and off: "off = y * w * 4 + x * 4"
  shows "DrawPoint point mi =
           Inr (mi\<lparr>Pixels := (Pixels mi)[off := Red point, off + 1 := Green point,
                                           off + 2 := Blue point, off + 3 := 255]\<rparr>) \<and>
         off + 3 < length (Pixels mi) \<and>
         (\<forall>mi'. DrawPoint point mi = Inr mi' \<longrightarrow>
            length (Pixels mi') = length (Pixels mi) \<and>
            Pixels mi' ! off = Red point \<and> Pixels mi' ! (off + 1) = Green point \<and>
            Pixels mi' ! (off + 2) = Blue point \<and> Pixels mi' ! (off + 3) = 255 \<and>
            (\<forall>k < length (Pixels mi). k < off \<or> off + 3 < k \<longrightarrow> Pixels mi' ! k = Pixels mi ! k))"
proof -
  have b: "off + 3 < 4 * w * h" unfolding off by (rule offset_bound[OF x y])
  have bl: "off + 3 < length (Pixels mi)" using b len by simp
  have bi: "int off + 3 < 2 ^ 63" using b sz by linarith
  have wl: "w \<le> 4 * w * h" using y by (cases h) simp_all
  have xw: "int x < 2 ^ 63" and ww: "int w < 2 ^ 63" using x wl sz by linarith+
  have yw0: "y * w * 4 \<le> off" and x40: "x * 4 \<le> off" unfolding off by simp_all
  have yb: "int y < 2 ^ 63" 
  proof -
    have "y \<le> y * w" using x by (cases w) simp_all
    then have "y \<le> off" using yw0 by linarith
    then show ?thesis using bi by linarith
  qed
  have ywb: "int y * int w < 2 ^ 63"
  proof -
    have "y * w \<le> off" using yw0 by linarith
    then have "int (y * w) < 2 ^ 63" using bi by linarith
    then show ?thesis by simp
  qed
  have yw4: "int y * int w * 4 < 2 ^ 63"
  proof -
    have "int (y * w * 4) < 2 ^ 63" using yw0 bi by linarith
    then show ?thesis by simp
  qed
  have x4: "int x * 4 < 2 ^ 63"
  proof -
    have "int (x * 4) < 2 ^ 63" using x40 bi by linarith
    then show ?thesis by simp
  qed
  have offi: "int off = int y * int w * 4 + int x * 4" unfolding off by simp
  have idx: "wrap64 (wrap64 (wrap64 (int y * int w) * 4) + wrap64 (int x * 4)) = int off"
    using ywb yw4 x4 bi by (simp add: wrap64_nonneg offi)
  have i1: "wrap64 (int off + 1) = int (off + 1)" using bi by (simp add: wrap64_nonneg)
  have i2: "wrap64 (int off + 2) = int (off + 2)" using bi by (simp add: wrap64_nonneg)
  have i3: "wrap64 (int off + 3) = int (off + 3)" using bi by (simp add: wrap64_nonneg)
  have s0: "store (Pixels mi) (int off) (Red point) = Inr ((Pixels mi)[off := Red point])"
    using bl bi by (intro store_ok) simp_all
  have s1: "store ((Pixels mi)[off := Red point]) (int (off + 1)) (Green point)
              = Inr ((Pixels mi)[off := Red point, off + 1 := Green point])"
    using bl bi by (intro store_ok) simp_all
  have s2: "store ((Pixels mi)[off := Red point, off + 1 := Green point]) (int (off + 2)) (Blue point)
              = Inr ((Pixels mi)[off := Red point, off + 1 := Green point, off + 2 := Blue point])"
    using bl bi by (intro store_ok) simp_all
  have s3: "store ((Pixels mi)[off := Red point, off + 1 := Green point, off + 2 := Blue point])
               (int (off + 3)) 255
              = Inr ((Pixels mi)[off := Red point, off + 1 := Green point, off + 2 := Blue point,
                                 off + 3 := 255])"
    using bl bi by (intro store_ok) simp_all
  have dp: "DrawPoint point mi =
           Inr (mi\<lparr>Pixels := (Pixels mi)[off := Red point, off + 1 := Green point,
                                           off + 2 := Blue point, off + 3 := 255]\<rparr>)"
    unfolding DrawPoint_def W X Y
    by (simp only: int_of_float_of_nat[OF yb] int_of_float_of_nat[OF ww] int_of_float_of_nat[OF xw]
          sum.case Let_def idx i1 i2 i3 s0 s1 s2 s3)
  show ?thesis unfolding dp using bl by (auto simp: nth_list_update)
qed

theorem DrawPoint_writes_pixel_witness:
  "DrawPoint \<lparr> X = 1, Y = 1, Red = 10, Green = 20, Blue = 30 \<rparr>
      \<lparr> mi_Width = 2, mi_Height = 2, Pixels = replicate 16 0 \<rparr> =
   Inr \<lparr> mi_Width = 2, mi_Height = 2,
         Pixels = [0, 0, 0, 0, 0, 0, 0, 0, 0, 0, 0, 0, 10, 20, 30, 255] \<rparr>"
proof -
  let ?mi = "\<lparr> mi_Width = 2, mi_Height = 2, Pixels = replicate 16 (0::uint8) \<rparr>"
  let ?pt = "\<lparr> X = 1, Y = 1, Red = 10, Green = 20, Blue = 30 \<rparr>"
  have W: "mi_Width ?mi = real 2" and H: "mi_Height ?mi = real 2" by simp_all
  have X: "X ?pt = real 1" and Y: "Y ?pt = real 1" by simp_all
  have x: "(1::nat) < 2" by simp
  have len: "length (Pixels ?mi) = 4 * 2 * 2" by simp
  have sz: "int (4 * 2 * 2) < 2 ^ 63" by simp
  have off: "(12::nat) = 1 * 2 * 4 + 1 * 4" by simp
  have r: "replicate 16 (0::uint8) = [0, 0, 0, 0, 0, 0, 0, 0, 0, 0, 0, 0, 0, 0, 0, 0]"
    by (simp add: numeral_eq_Suc)
  from DrawPoint_writes_pixel[OF W H X Y x x len sz off]
  show ?thesis by (simp add: r)
qed

text \<open>One round of the loop of \<open>Init\<close>, and the bytes the whole loop writes.\<close>

lemma Init_loop_done: "\<not> i < n \<Longrightarrow> Init_loop n i px = Inr px"
  by (subst Init_loop.simps) simp

lemma Init_loop_step:
  assumes "i < n" "i + 3 < length px" "int (length px) < 2 ^ 63"
  shows "Init_loop n i px = Init_loop n (i + 4) (px[i := 0, i + 1 := 0, i + 2 := 0, i + 3 := 0])"
proof -
  have b: "int i + 3 < 2 ^ 63" using assms by linarith
  have i4: "i + 4 < 2 ^ 64"
  proof -
    have "int (i + 4) < 2 ^ 64" using b by simp
    then show ?thesis by (metis of_nat_less_iff of_nat_numeral of_nat_power)
  qed
  have m1: "(i + 1) mod 2 ^ 64 = i + 1" and m2: "(i + 2) mod 2 ^ 64 = i + 2"
    and m3: "(i + 3) mod 2 ^ 64 = i + 3" and m4: "(i + 4) mod 2 ^ 64 = i + 4"
    using i4 by simp_all
  have s0: "store px (int i) 0 = Inr (px[i := 0])"
    using assms b by (intro store_ok) simp_all
  have s1: "store (px[i := 0]) (int (i + 1)) 0 = Inr (px[i := 0, i + 1 := 0])"
    using assms b by (intro store_ok) simp_all
  have s2: "store (px[i := 0, i + 1 := 0]) (int (i + 2)) 0 = Inr (px[i := 0, i + 1 := 0, i + 2 := 0])"
    using assms b by (intro store_ok) simp_all
  have s3: "store (px[i := 0, i + 1 := 0, i + 2 := 0]) (int (i + 3)) 0
              = Inr (px[i := 0, i + 1 := 0, i + 2 := 0, i + 3 := 0])"
    using assms b by (intro store_ok) simp_all
  show ?thesis
    by (subst Init_loop.simps) (simp only: assms(1) if_True m1 m2 m3 m4 s0 s1 s2 s3 sum.case)
qed

lemma Init_loop_writes:
  assumes "n + 2 < length px" "int (length px) < 2 ^ 63"
  shows "\<exists>px'. Init_loop n i px = Inr px' \<and> length px' = length px \<and>
          (\<forall>k < length px. px' ! k =
             (if i \<le> k \<and> k < i + 4 * ((n - i + 3) div 4) then 0 else px ! k))"
  using assms
proof (induction "n - i" arbitrary: i px rule: less_induct)
  case less
  show ?case
  proof (cases "i < n")
    case False
    then have "(n - i + 3) div 4 = 0" by simp
    then show ?thesis using False by (auto simp: Init_loop_done)
  next
    case True
    let ?px = "px[i := 0, i + 1 := 0, i + 2 := 0, i + 3 := 0]"
    have in_b: "i + 3 < length px" using True less.prems by linarith
    have st: "Init_loop n i px = Init_loop n (i + 4) ?px"
      by (rule Init_loop_step[OF True in_b less.prems(2)])
    have "n - (i + 4) < n - i" using True by simp
    moreover have "n + 2 < length ?px" "int (length ?px) < 2 ^ 63" using less.prems by simp_all
    ultimately obtain px' where r: "Init_loop n (i + 4) ?px = Inr px'"
      and l: "length px' = length ?px"
      and c: "\<forall>k < length ?px. px' ! k =
             (if i + 4 \<le> k \<and> k < i + 4 + 4 * ((n - (i + 4) + 3) div 4) then 0 else ?px ! k)"
      using less.hyps[of "i + 4" ?px] by blast
    have d: "4 * ((n - i + 3) div 4) = 4 + 4 * ((n - (i + 4) + 3) div 4)"
      using True by presburger
    have "\<forall>k < length px. px' ! k =
             (if i \<le> k \<and> k < i + 4 * ((n - i + 3) div 4) then 0 else px ! k)"
    proof (intro allI impI)
      fix k assume k: "k < length px"
      then have "px' ! k = (if i + 4 \<le> k \<and> k < i + 4 + 4 * ((n - (i + 4) + 3) div 4) then 0 else ?px ! k)"
        using c by simp
      moreover have "?px ! k = (if k = i \<or> k = i + 1 \<or> k = i + 2 \<or> k = i + 3 then 0 else px ! k)"
        using k by (simp add: nth_list_update)
      moreover have "(k = i \<or> k = i + 1 \<or> k = i + 2 \<or> k = i + 3) \<longleftrightarrow> (i \<le> k \<and> k < i + 4)"
        by arith
      ultimately show "px' ! k = (if i \<le> k \<and> k < i + 4 * ((n - i + 3) div 4) then 0 else px ! k)"
        unfolding d by auto
    qed
    then show ?thesis using st r l by simp
  qed
qed

lemma trunc_nonneg: "0 \<le> r \<Longrightarrow> trunc r = \<lfloor>r\<rfloor>"
  by (simp add: trunc_def)

lemma floor_times_4: "4 * \<lfloor>r::real\<rfloor> \<le> \<lfloor>r * 4\<rfloor>"
proof -
  have "real_of_int (4 * \<lfloor>r\<rfloor>) \<le> r * 4" by simp
  then show ?thesis by (simp only: le_floor_iff)
qed

text \<open>
  Claim C10. For \<open>width, height \<ge> 1\<close>, \<open>NewMandelbrotImage\<close> returns a buffer of
  \<open>int(width*height*4)\<close> bytes, all zero, and \<open>Init\<close> returns it unchanged. On a buffer of that
  length with any contents, the loop of \<open>Init\<close> succeeds, so every index it writes is
  within bounds; it zeroes the bytes below \<open>n = uint64(width*height)\<close> rounded up to a
  multiple of 4 (its counter runs from 0 to \<open>n - 1\<close> in steps of 4, four bytes per step)
  and leaves the other bytes as they are.
\<close>

theorem NewMandelbrotImage_Init_zero:
  assumes w: "1 \<le> width" and h: "1 \<le> height" and sz: "width * height * 4 < 2 ^ 63"
    and n: "n = nat (trunc (width * height))"
    and len: "len = nat (trunc (width * height * 4))"
  shows "NewMandelbrotImage width height =
           Inr \<lparr> mi_Width = width, mi_Height = height, Pixels = replicate len 0 \<rparr> \<and>
         Init \<lparr> mi_Width = width, mi_Height = height, Pixels = replicate len 0 \<rparr> =
           Inr \<lparr> mi_Width = width, mi_Height = height, Pixels = replicate len 0 \<rparr> \<and>
         4 * ((n + 3) div 4) \<le> len \<and>
         (\<forall>px. length px = len \<longrightarrow>
            (\<exists>px'. Init \<lparr> mi_Width = width, mi_Height = height, Pixels = px \<rparr> =
                     Inr \<lparr> mi_Width = width, mi_Height = height, Pixels = px' \<rparr> \<and>
                   length px' = len \<and>
                   (\<forall>k < len. px' ! k = (if k < 4 * ((n + 3) div 4) then 0 else px ! k))))"
proof -
  have wh: "1 \<le> width * height" using w h by (metis mult_mono mult_1 zero_le_one order_trans)
  have wh0: "0 \<le> width * height" and wh40: "0 \<le> width * height * 4" using wh by simp_all
  have tn: "trunc (width * height) = \<lfloor>width * height\<rfloor>" by (rule trunc_nonneg[OF wh0])
  have tl: "trunc (width * height * 4) = \<lfloor>width * height * 4\<rfloor>" by (rule trunc_nonneg[OF wh40])
  have f1: "1 \<le> \<lfloor>width * height\<rfloor>" using wh by (simp add: le_floor_iff)
  have f4: "4 * \<lfloor>width * height\<rfloor> \<le> \<lfloor>width * height * 4\<rfloor>" by (rule floor_times_4)
  have fu: "\<lfloor>width * height * 4\<rfloor> < 2 ^ 63"
  proof -
    have "width * height * 4 < real_of_int (2 ^ 63)" using sz by simp
    then show ?thesis by (simp only: floor_less_iff)
  qed
  have n1: "int n = \<lfloor>width * height\<rfloor>" using f1 by (simp add: n tn)
  have l1: "int len = \<lfloor>width * height * 4\<rfloor>" using f1 f4 by (simp add: len tl)
  have nl: "4 * n \<le> len" using f4 n1 l1 by linarith
  have n_pos: "1 \<le> n" using f1 n1 by linarith
  have lb: "int len < 2 ^ 63" using fu l1 by simp
  have new: "NewMandelbrotImage width height =
           Inr \<lparr> mi_Width = width, mi_Height = height, Pixels = replicate len 0 \<rparr>"
  proof -
    have L0: "0 \<le> \<lfloor>width * height * 4\<rfloor>" using f1 f4 by linarith
    then have c: "- (2 ^ 63) \<le> \<lfloor>width * height * 4\<rfloor> \<and> \<lfloor>width * height * 4\<rfloor> < 2 ^ 63"
      using fu by linarith
    have iof: "int_of_float (width * height * 4) = Inr \<lfloor>width * height * 4\<rfloor>"
      by (simp only: int_of_float_def tl in_int64_def c simp_thms if_True)
    have nn: "\<not> \<lfloor>width * height * 4\<rfloor> < 0" using L0 by linarith
    have nl: "nat \<lfloor>width * height * 4\<rfloor> = len" using l1 by linarith
    show ?thesis
      by (simp only: NewMandelbrotImage_def iof sum.case nn if_False nl)
  qed
  have u: "uint64_of_float (width * height) = Inr n"
  proof -
    have "(2::int) ^ 63 < 2 ^ 64" by simp
    then have "\<lfloor>width * height\<rfloor> < 2 ^ 64" using f1 f4 fu by linarith
    moreover have "0 \<le> \<lfloor>width * height\<rfloor>" using f1 by linarith
    ultimately have c: "0 \<le> \<lfloor>width * height\<rfloor> \<and> \<lfloor>width * height\<rfloor> < 2 ^ 64" by simp
    have "nat \<lfloor>width * height\<rfloor> = n" using n1 by linarith
    then show ?thesis by (simp only: uint64_of_float_def tn c simp_thms if_True)
  qed
  have m: "4 * ((n + 3) div 4) \<le> len" using nl n_pos by presburger
  have gen: "\<exists>px'. Init \<lparr> mi_Width = width, mi_Height = height, Pixels = px \<rparr> =
                     Inr \<lparr> mi_Width = width, mi_Height = height, Pixels = px' \<rparr> \<and>
                   length px' = len \<and>
                   (\<forall>k < len. px' ! k = (if k < 4 * ((n + 3) div 4) then 0 else px ! k))"
    if L: "length px = len" for px
  proof -
    have a: "n + 2 < length px" using nl n_pos L by linarith
    have b: "int (length px) < 2 ^ 63" using lb L by simp
    from Init_loop_writes[OF a b, of 0] obtain px' where
      r: "Init_loop n 0 px = Inr px'" and l: "length px' = length px"
      and c: "\<forall>k < length px. px' ! k = (if k < 4 * ((n + 3) div 4) then 0 else px ! k)"
      by auto
    have "Init \<lparr> mi_Width = width, mi_Height = height, Pixels = px \<rparr> =
                     Inr \<lparr> mi_Width = width, mi_Height = height, Pixels = px' \<rparr>"
      by (simp add: Init_def u r)
    then show ?thesis using l c L by auto
  qed
  have zero: "Init \<lparr> mi_Width = width, mi_Height = height, Pixels = replicate len 0 \<rparr> =
           Inr \<lparr> mi_Width = width, mi_Height = height, Pixels = replicate len 0 \<rparr>"
  proof -
    from gen[of "replicate len 0"] obtain px' where
      r: "Init \<lparr> mi_Width = width, mi_Height = height, Pixels = replicate len 0 \<rparr> =
                     Inr \<lparr> mi_Width = width, mi_Height = height, Pixels = px' \<rparr>"
      and l: "length px' = len"
      and c: "\<forall>k < len. px' ! k = (if k < 4 * ((n + 3) div 4) then 0 else replicate len 0 ! k)"
      by auto
    have "px' = replicate len 0"
      using l c by (intro nth_equalityI) simp_all
    then show ?thesis using r by simp
  qed
  show ?thesis using new zero m gen by blast
qed

theorem NewMandelbrotImage_Init_zero_witness:
  "(1::real) \<le> 2 \<and> (2::real) * 2 * 4 < 2 ^ 63 \<and>
   NewMandelbrotImage 2 2 = Inr \<lparr> mi_Width = 2, mi_Height = 2, Pixels = replicate 16 0 \<rparr> \<and>
   Init \<lparr> mi_Width = 2, mi_Height = 2, Pixels = replicate 16 0 \<rparr> =
     Inr \<lparr> mi_Width = 2, mi_Height = 2, Pixels = replicate 16 0 \<rparr>"
proof -
  have w: "(1::real) \<le> 2" by simp
  have sz: "(2::real) * 2 * 4 < 2 ^ 63" by simp
  have n: "(4::nat) = nat (trunc (2 * 2))" by (simp add: trunc_def)
  have len: "(16::nat) = nat (trunc (2 * 2 * 4))" by (simp add: trunc_def)
  show ?thesis using w sz NewMandelbrotImage_Init_zero[OF w w sz n len] by simp
qed

section \<open>The run loop\<close>

text \<open>The program reaches the run loop without a fault, in the state \<open>initial_state\<close>.\<close>

lemma length_pass_points: "length (pass_points w h) = nat w * nat h"
  by (simp add: pass_points_def length_concat comp_def sum_list_triv)

lemma Init_loop_zero:
  assumes a: "n + 2 < len" and b: "int len < 2 ^ 63"
  shows "Init_loop n 0 (replicate len 0) = Inr (replicate len 0)"
proof -
  have a': "n + 2 < length (replicate len (0::uint8))" using a by simp
  have b': "int (length (replicate len (0::uint8))) < 2 ^ 63" using b by simp
  from Init_loop_writes[OF a' b', of 0] obtain px' where
    r: "Init_loop n 0 (replicate len 0) = Inr px'" and l: "length px' = len"
    and c: "\<forall>k < len. px' ! k = (if k < 4 * ((n + 3) div 4) then 0 else replicate len 0 ! k)"
    by auto
  have "px' = replicate len 0" using l c by (intro nth_equalityI) simp_all
  then show ?thesis using r by simp
qed

lemma int_of_float_800: "int_of_float 800 = Inr 800"
  by (simp add: int_of_float_def trunc_def in_int64_def)

lemma startup_initial_state: "startup = Inr initial_state"
proof -
  have new: "NewMandelbrotImage 800 800 =
               Inr \<lparr> mi_Width = 800, mi_Height = 800, Pixels = replicate 2560000 0 \<rparr>"
    by (simp add: NewMandelbrotImage_def int_of_float_def trunc_def in_int64_def)
  have u: "uint64_of_float 640000 = Inr 640000"
    by (simp add: uint64_of_float_def trunc_def)
  have z: "Init_loop 640000 0 (replicate 2560000 0) = Inr (replicate 2560000 0)"
    by (rule Init_loop_zero) simp_all
  have ini: "Init \<lparr> mi_Width = 800, mi_Height = 800, Pixels = replicate 2560000 0 \<rparr> =
               Inr \<lparr> mi_Width = 800, mi_Height = 800, Pixels = replicate 2560000 0 \<rparr>"
    by (simp add: Init_def u z)
  have W: "Width initial_settings = 800" and H: "Height initial_settings = 800"
    by (simp_all add: initial_settings_def)
  show ?thesis
    by (simp add: startup_def W H new ini ForceRender_def int_of_float_800 initial_state_def)
qed

lemma ForceRender_eq:
  assumes w: "int_of_float (mi_Width (image st)) = Inr w"
    and h: "int_of_float (mi_Height (image st)) = Inr h"
  shows "ForceRender st = Inr (st\<lparr>passes := passes st + 1, inflight := inflight st @ pass_points w h\<rparr>)"
proof (cases "0 < w")
  case True
  then show ?thesis by (simp add: ForceRender_def w h)
next
  case False
  then have "pass_points w h = []" by (simp add: pass_points_def)
  then show ?thesis using False by (simp add: ForceRender_def w)
qed

text \<open>
  Claim C3, as the code has it. The program enters the run loop with the recompute trigger
  \<open>updateTexture\<close> clear and with the first pass dispatched by a call of \<open>ForceRender\<close> that
  does not depend on the trigger, so the first frame is always computed. On each
  presentation tick the loop dispatches a fresh pass, one worker for every pixel, if the
  trigger is set once the tick's events have been handled, and none otherwise; the trigger
  is cleared after the pass has been dispatched, and it is clear when the tick ends.
\<close>

theorem run_loop_dispatch:
  assumes w: "int_of_float (mi_Width (image st)) = Inr w"
    and h: "int_of_float (mi_Height (image st)) = Inr h"
  shows "startup = Inr initial_state \<and>
         \<not> updateTexture initial_state \<and> passes initial_state = 1 \<and>
         inflight initial_state = pass_points 800 800 \<and>
         (updateTexture (poll_events evs st) \<longrightarrow>
            tick evs st = Inr ((poll_events evs st)
                                \<lparr>passes := passes st + 1,
                                 inflight := inflight st @ pass_points w h,
                                 updateTexture := False\<rparr>)) \<and>
         (\<not> updateTexture (poll_events evs st) \<longrightarrow>
            tick evs st = Inr (poll_events evs st) \<and>
            passes (poll_events evs st) = passes st \<and>
            inflight (poll_events evs st) = inflight st) \<and>
         length (pass_points w h) = nat w * nat h"
proof -
  have w': "int_of_float (mi_Width (image (poll_events evs st))) = Inr w"
    and h': "int_of_float (mi_Height (image (poll_events evs st))) = Inr h"
    using w h by (simp_all add: poll_events_image)
  have a: "updateTexture (poll_events evs st) \<longrightarrow>
            tick evs st = Inr ((poll_events evs st)
                                \<lparr>passes := passes st + 1,
                                 inflight := inflight st @ pass_points w h,
                                 updateTexture := False\<rparr>)"
    by (simp add: tick_def Let_def ForceRender_eq[OF w' h'] poll_events_passes poll_events_inflight)
  have b: "\<not> updateTexture (poll_events evs st) \<longrightarrow>
            tick evs st = Inr (poll_events evs st) \<and>
            passes (poll_events evs st) = passes st \<and>
            inflight (poll_events evs st) = inflight st"
    by (simp add: tick_def Let_def poll_events_passes poll_events_inflight)
  have c: "\<not> updateTexture initial_state \<and> passes initial_state = 1 \<and>
         inflight initial_state = pass_points 800 800"
    by (simp add: initial_state_def)
  show ?thesis using startup_initial_state a b c length_pass_points by blast
qed

theorem run_loop_dispatch_witness:
  "int_of_float (mi_Width (image initial_state)) = Inr 800 \<and>
   int_of_float (mi_Height (image initial_state)) = Inr 800 \<and>
   updateTexture (poll_events [KeyboardEvent K_UP] initial_state) \<and>
   tick [KeyboardEvent K_UP] initial_state =
     Inr ((poll_events [KeyboardEvent K_UP] initial_state)
            \<lparr>passes := 2, inflight := pass_points 800 800 @ pass_points 800 800,
             updateTexture := False\<rparr>) \<and>
   \<not> updateTexture (poll_events [] initial_state) \<and>
   tick [] initial_state = Inr (poll_events [] initial_state) \<and>
   length (pass_points 800 800) = 640000"
proof -
  have w: "int_of_float (mi_Width (image initial_state)) = Inr 800"
    and h: "int_of_float (mi_Height (image initial_state)) = Inr 800"
    by (simp_all add: initial_state_def int_of_float_800)
  have a: "updateTexture (poll_events [KeyboardEvent K_UP] initial_state)"
    by (simp add: poll_events_def handle_key_def key_defs)
  have b: "\<not> updateTexture (poll_events [] initial_state)"
    by (simp add: poll_events_Nil initial_state_def)
  have p: "passes initial_state = 1" and i: "inflight initial_state = pass_points 800 800"
    by (simp_all add: initial_state_def)
  show ?thesis
    using w h a b run_loop_dispatch[OF w h, of "[KeyboardEvent K_UP]"]
      run_loop_dispatch[OF w h, of "[]"]
    by (simp add: p i)
qed

text \<open>
  Claim C3, where it fails. The trigger is clear at startup. The run loop is entered with
  the workers of the first pass in flight; a tick that handles a key event then dispatches
  a second pass and ends with the trigger cleared while the 1280000 workers of the two
  passes are in flight, and the next tick dispatches a third pass while those of the second
  are in flight. So the trigger is cleared before the pass has completed, and a new pass
  is dispatched while the pass that cleared it is incomplete.
\<close>

theorem flag_cleared_while_pass_incomplete:
  "\<not> updateTexture initial_state \<and> inflight initial_state \<noteq> [] \<and>
   tick [KeyboardEvent K_UP] initial_state =
     Inr (initial_state
           \<lparr>settings := initial_settings
              \<lparr>Center := \<lparr> X = 0.5, Y = - 0.05, Red = 0, Green = 0, Blue = 0 \<rparr>\<rparr>,
            passes := 2, inflight := pass_points 800 800 @ pass_points 800 800\<rparr>) \<and>
   step initial_state
     (initial_state
           \<lparr>settings := initial_settings
              \<lparr>Center := \<lparr> X = 0.5, Y = - 0.05, Red = 0, Green = 0, Blue = 0 \<rparr>\<rparr>,
            passes := 2, inflight := pass_points 800 800 @ pass_points 800 800\<rparr>) \<and>
   \<not> updateTexture (initial_state
           \<lparr>settings := initial_settings
              \<lparr>Center := \<lparr> X = 0.5, Y = - 0.05, Red = 0, Green = 0, Blue = 0 \<rparr>\<rparr>,
            passes := 2, inflight := pass_points 800 800 @ pass_points 800 800\<rparr>) \<and>
   length (pass_points 800 800 @ pass_points 800 800) = 1280000 \<and>
   step (initial_state
           \<lparr>settings := initial_settings
              \<lparr>Center := \<lparr> X = 0.5, Y = - 0.05, Red = 0, Green = 0, Blue = 0 \<rparr>\<rparr>,
            passes := 2, inflight := pass_points 800 800 @ pass_points 800 800\<rparr>)
     (initial_state
           \<lparr>passes := 3,
            inflight := pass_points 800 800 @ pass_points 800 800 @ pass_points 800 800\<rparr>)"
proof -
  let ?S1 = "initial_state
           \<lparr>settings := initial_settings
              \<lparr>Center := \<lparr> X = 0.5, Y = - 0.05, Red = 0, Green = 0, Blue = 0 \<rparr>\<rparr>,
            passes := 2, inflight := pass_points 800 800 @ pass_points 800 800\<rparr>"
  let ?S2 = "initial_state
           \<lparr>passes := 3,
            inflight := pass_points 800 800 @ pass_points 800 800 @ pass_points 800 800\<rparr>"
  have a: "\<not> updateTexture initial_state" by (simp add: initial_state_def)
  have l: "length (pass_points 800 800) = 640000" by (simp add: length_pass_points)
  have b: "inflight initial_state \<noteq> []"
  proof
    assume "inflight initial_state = []"
    then have "length (pass_points 800 800) = 0" by (simp add: initial_state_def)
    then show False using l by simp
  qed
  have t1: "tick [KeyboardEvent K_UP] initial_state = Inr ?S1"
    by (simp add: tick_def Let_def poll_events_def handle_key_def key_defs set_center_Y_def
          ForceRender_def int_of_float_800 initial_state_def initial_settings_def)
  have t2: "tick [KeyboardEvent K_DOWN] ?S1 = Inr ?S2"
    by (simp add: tick_def Let_def poll_events_def handle_key_def key_defs set_center_Y_def
          ForceRender_def int_of_float_800 initial_state_def initial_settings_def)
  have r0: "running initial_state" and r1: "running ?S1" by (simp_all add: initial_state_def)
  have s1: "step initial_state ?S1" by (rule step_tick[OF r0 t1])
  have s2: "step ?S1 ?S2" by (rule step_tick[OF r1 t2])
  have c: "\<not> updateTexture ?S1" by (simp add: initial_state_def)
  have d: "length (pass_points 800 800 @ pass_points 800 800) = 1280000" by (simp add: l)
  show ?thesis using a b t1 s1 c d s2 by blast
qed

text \<open>A worker in flight can finish: the first worker of the first pass draws pixel
  \<open>(0, 0)\<close>, which escapes at the first update and is black.\<close>

lemma pass_points_first:
  assumes "0 < w" "0 < h"
  shows "pass_points w h =
           \<lparr> X = 0, Y = 0, Red = 0, Green = 0, Blue = 0 \<rparr> # tl (pass_points w h)"
proof -
  have w: "[0..w - 1] = 0 # [1..w - 1]" using assms by (subst upto_rec1) simp_all
  have h: "[0..h - 1] = 0 # [1..h - 1]" using assms by (subst upto_rec1) simp_all
  show ?thesis by (simp add: pass_points_def w h)
qed

lemma worker_step_possible:
  "step initial_state
     (initial_state
        \<lparr>image := \<lparr> mi_Width = 800, mi_Height = 800,
                    Pixels = (replicate 2560000 0)[0 := 0, 1 := 0, 2 := 0, 3 := 255] \<rparr>,
         inflight := tl (pass_points 800 800)\<rparr>)"
proof -
  let ?p = "\<lparr> X = 0, Y = 0, Red = 0, Green = 0, Blue = 0 \<rparr>"
  have pp: "pass_points 800 800 = ?p # tl (pass_points 800 800)"
    by (rule pass_points_first) simp_all
  have k: "0 < length (inflight initial_state)"
    by (simp add: initial_state_def length_pass_points)
  have n0: "inflight initial_state ! 0 = ?p"
    by (subst initial_state_def, simp, subst pp, simp)
  have M: "MaxIterations initial_settings = 200" by (simp add: initial_settings_def)
  have pl: "plane_point ?p initial_settings = Inr (- (167 / 50), - (71 / 25))"
    by (simp add: plane_point_def mapToRange_def initial_settings_def)
  have it: "escape_loop (- (167 / 50)) (- (71 / 25)) 200 (- (167 / 50)) (- (71 / 25)) 0 0 = 0"
    by (simp add: escape_loop_break)
  have cl: "colour_level 0 200 = Inr 0" by (simp add: colour_level_def mapToRange_def)
  have mw: "mandelbrotWorker ?p initial_settings = Inr ?p"
    by (simp add: mandelbrotWorker_def pl M it cl channels_0)
  have i0: "int_of_float 0 = Inr 0" by (simp add: int_of_float_def trunc_def in_int64_def)
  have dp: "DrawPoint ?p \<lparr> mi_Width = 800, mi_Height = 800, Pixels = replicate 2560000 0 \<rparr> =
              Inr \<lparr> mi_Width = 800, mi_Height = 800,
                    Pixels = (replicate 2560000 0)[0 := 0, 1 := 0, 2 := 0, 3 := 255] \<rparr>"
    by (simp add: DrawPoint_def i0 int_of_float_800 wrap64_def store_def)
  have dr: "drop (Suc 0) (inflight initial_state) = tl (pass_points 800 800)"
    by (simp add: initial_state_def drop_Suc)
  have wd: "worker_done 0 initial_state =
              Inr (initial_state
        \<lparr>image := \<lparr> mi_Width = 800, mi_Height = 800,
                    Pixels = (replicate 2560000 0)[0 := 0, 1 := 0, 2 := 0, 3 := 255] \<rparr>,
         inflight := tl (pass_points 800 800)\<rparr>)"
    unfolding worker_done_def n0
    by (simp add: initial_state_def mw dp drop_Suc)
  show ?thesis by (rule step_worker[OF k wd])
qed

end
